theory Spec2Isabelle
  imports Main
begin

section \<open>JavaScript values used by the front end\<close>

text \<open>
  The progression counters of \<^verbatim>\<open>AppState\<close> are JavaScript numbers. The program only ever
  produces integers (\<^verbatim>\<open>parseInt\<close>, \<^verbatim>\<open>+=\<close>, \<^verbatim>\<open>Math.floor\<close>) or \<^verbatim>\<open>NaN\<close>
  (\<^verbatim>\<open>parseInt\<close> of a string with no leading digits), so a number is an integer or \<open>NaN\<close>.
  Integers are exact here; the rounding of doubles beyond \<open>2^53\<close> and fractional
  amounts are outside the model.
\<close>

datatype jsnum = Num int | NaN

text \<open>\<^verbatim>\<open>a + b\<close> on numbers.\<close>

fun js_add :: "jsnum \<Rightarrow> jsnum \<Rightarrow> jsnum" where
  "js_add (Num a) (Num b) = Num (a + b)"
| "js_add _ _ = NaN"

text \<open>\<^verbatim>\<open>a > b\<close> and \<^verbatim>\<open>a < b\<close> on numbers: every comparison with \<open>NaN\<close> is false.\<close>

fun js_gt :: "jsnum \<Rightarrow> jsnum \<Rightarrow> bool" where
  "js_gt (Num a) (Num b) = (b < a)"
| "js_gt _ _ = False"

fun js_lt :: "jsnum \<Rightarrow> jsnum \<Rightarrow> bool" where
  "js_lt (Num a) (Num b) = (a < b)"
| "js_lt _ _ = False"

text \<open>
  \<^verbatim>\<open>Math.floor(x / 100) + 1\<close>, the level derived from an XP total. On integers
  \<open>div\<close> rounds towards minus infinity, as \<^verbatim>\<open>Math.floor\<close> does.
\<close>

fun levelOf :: "jsnum \<Rightarrow> jsnum" where
  "levelOf (Num x) = Num (x div 100 + 1)"
| "levelOf NaN = NaN"

text \<open>
  A thrown value. The program reads only \<^verbatim>\<open>error.message\<close>; \<open>Error m\<close> is
  \<^verbatim>\<open>new Error(m)\<close>, the other constructors are the engine's own exceptions, whose
  message text depends on the engine.
\<close>

datatype exn = Error string | TypeError | SyntaxError | SecurityError | NetworkError

section \<open>parseInt\<close>

text \<open>
  A string is the list of the bytes of its UTF-8 form. \<^verbatim>\<open>parseInt(s)\<close> with no radix:
  leading white space is skipped, then an optional sign, then an optional
  \<^verbatim>\<open>0x\<close>/\<^verbatim>\<open>0X\<close> prefix that selects radix 16, then the longest run of digits of the
  radix; no digit at all gives \<open>NaN\<close>. White space is what the language counts as white
  space and line terminators: tab, line feed, vertical tab, form feed, carriage return,
  space, U+00A0, U+1680, U+2000 to U+200A, U+2028, U+2029, U+202F, U+205F, U+3000 and
  U+FEFF, each in its UTF-8 bytes.
\<close>

definition whiteSpace :: "string list" where
  "whiteSpace =
     [[CHR 0x09], [CHR 0x0A], [CHR 0x0B], [CHR 0x0C], [CHR 0x0D], [CHR 0x20],
      [CHR 0xC2, CHR 0xA0],
      [CHR 0xE1, CHR 0x9A, CHR 0x80],
      [CHR 0xE2, CHR 0x80, CHR 0x80], [CHR 0xE2, CHR 0x80, CHR 0x81],
      [CHR 0xE2, CHR 0x80, CHR 0x82], [CHR 0xE2, CHR 0x80, CHR 0x83],
      [CHR 0xE2, CHR 0x80, CHR 0x84], [CHR 0xE2, CHR 0x80, CHR 0x85],
      [CHR 0xE2, CHR 0x80, CHR 0x86], [CHR 0xE2, CHR 0x80, CHR 0x87],
      [CHR 0xE2, CHR 0x80, CHR 0x88], [CHR 0xE2, CHR 0x80, CHR 0x89],
      [CHR 0xE2, CHR 0x80, CHR 0x8A],
      [CHR 0xE2, CHR 0x80, CHR 0xA8], [CHR 0xE2, CHR 0x80, CHR 0xA9],
      [CHR 0xE2, CHR 0x80, CHR 0xAF],
      [CHR 0xE2, CHR 0x81, CHR 0x9F],
      [CHR 0xE3, CHR 0x80, CHR 0x80],
      [CHR 0xEF, CHR 0xBB, CHR 0xBF]]"

text \<open>Skipping leading white space, one character (of one, two or three bytes) at a time.\<close>

fun skipWhiteSpace :: "string \<Rightarrow> string" where
  "skipWhiteSpace [] = []"
| "skipWhiteSpace (c # cs) =
     (if [c] \<in> set whiteSpace then skipWhiteSpace cs
      else case cs of
             [] \<Rightarrow> c # cs
           | d # ds \<Rightarrow>
               if [c, d] \<in> set whiteSpace then skipWhiteSpace ds
               else (case ds of
                       [] \<Rightarrow> c # cs
                     | e # es \<Rightarrow>
                         if [c, d, e] \<in> set whiteSpace then skipWhiteSpace es else c # cs))"

definition digitTable :: "(char \<times> int) list" where
  "digitTable = zip ''0123456789abcdef'' [0, 1, 2, 3, 4, 5, 6, 7, 8, 9, 10, 11, 12, 13, 14, 15]
     @ zip ''ABCDEF'' [10, 11, 12, 13, 14, 15]"

definition digitValue :: "int \<Rightarrow> char \<Rightarrow> int option" where
  "digitValue radix c =
     (case map_of digitTable c of
        None \<Rightarrow> None
      | Some d \<Rightarrow> if d < radix then Some d else None)"

text \<open>The value of the longest prefix of digits, and whether there was any digit.\<close>

fun parseDigits :: "int \<Rightarrow> string \<Rightarrow> int \<Rightarrow> bool \<Rightarrow> int option" where
  "parseDigits radix [] acc seen = (if seen then Some acc else None)"
| "parseDigits radix (c # cs) acc seen =
     (case digitValue radix c of
        None \<Rightarrow> (if seen then Some acc else None)
      | Some d \<Rightarrow> parseDigits radix cs (acc * radix + d) True)"

definition parseInt :: "string \<Rightarrow> jsnum" where
  "parseInt s =
     (let s1 = skipWhiteSpace s;
          sign = (case s1 of c # _ \<Rightarrow> if c = CHR ''-'' then - 1 else 1 | [] \<Rightarrow> (1::int));
          s2 = (case s1 of c # cs \<Rightarrow> if c = CHR ''+'' \<or> c = CHR ''-'' then cs else s1 | [] \<Rightarrow> s1);
          hex = (take 2 s2 = ''0x'' \<or> take 2 s2 = ''0X'');
          radix = (if hex then 16 else 10);
          s3 = (if hex then drop 2 s2 else s2)
      in case parseDigits radix s3 0 False of
           None \<Rightarrow> NaN
         | Some n \<Rightarrow> Num (sign * n))"

section \<open>Application state\<close>

text \<open>An entry of the quest log, as \<^verbatim>\<open>handleSwapSuccess\<close> builds it.\<close>

record quest_entry =
  entry_type :: string
  entry_fromToken :: "string option"
  entry_toToken :: "string option"
  entry_amount :: string
  entry_xpEarned :: jsnum
  entry_timestamp :: string
  entry_txHash :: "string option"

text \<open>
  What \<^verbatim>\<open>AppState.questLog\<close> can hold: the initial value is an array, and
  \<^verbatim>\<open>loadSavedState\<close> stores whatever \<^verbatim>\<open>JSON.parse\<close> returned, which may be \<^verbatim>\<open>null\<close> or
  a value that is not an array (a number, a string, a boolean, an object). The elements
  of an array are taken to be entries. Of a value that is neither an array nor
  \<^verbatim>\<open>null\<close> the program only ever reads \<^verbatim>\<open>length\<close> and compares it with 0, so
  \<open>JOther z\<close> records whether \<^verbatim>\<open>length === 0\<close> holds (the empty string, an object with
  a \<^verbatim>\<open>length\<close> of 0); such a value has neither \<^verbatim>\<open>unshift\<close> nor \<^verbatim>\<open>map\<close>.
\<close>

datatype js_value = JArray "quest_entry list" | JNull | JOther bool

record AppState =
  web3 :: "unit option"
  account :: "string option"
  isConnected :: bool
  currentLevel :: jsnum
  currentXP :: jsnum
  questLog :: js_value

definition AppState_init :: AppState where
  "AppState_init =
     \<lparr>web3 = None, account = None, isConnected = False,
      currentLevel = Num 1, currentXP = Num 0, questLog = JArray []\<rparr>"

text \<open>
  The texts passed to \<^verbatim>\<open>showNotification\<close>, one constructor for each template of the
  source, and the notification types.
\<close>

datatype notice =
    ConnectWalletFirst
  | FillAllFields
  | SelectDifferentTokens
  | SwapFailedMsg exn
  | LevelUpMsg jsnum
  | WalletConnectedMsg
  | WalletDisconnectedMsg

datatype alert = Success | Failure | Warning | Info

text \<open>The body of the request sent to \<^verbatim>\<open>/api/execute-swap\<close> (slippage before \<^verbatim>\<open>parseFloat\<close>).\<close>

record exec_request =
  walletAddress :: "string option"
  tokenIn :: string
  tokenOut :: string
  amountIn :: string
  slippage_sent :: string

text \<open>
  The page: \<^verbatim>\<open>AppState\<close> together with what the program does to the outside, in the order
  it does it: the notifications shown, the requests sent to the execute service and to the
  wallet-validation service, the success modals shown, whether the loading state is shown
  in place of the swap form, what \<^verbatim>\<open>updateNetworkStatus\<close> last displayed, and what
  \<^verbatim>\<open>saveState\<close> last wrote to \<^verbatim>\<open>localStorage\<close>. The functions that only project the
  state into the document (\<^verbatim>\<open>updateXPDisplay\<close>, \<^verbatim>\<open>updateQuestLog\<close>, \<^verbatim>\<open>updateWalletUI\<close>,
  \<^verbatim>\<open>updateSwapButtonState\<close>) change none of this and are left out; the elements they and
  the library constructors reach for are taken to exist.
\<close>

record page =
  app :: AppState
  notifications :: "(notice \<times> alert) list"
  executeRequests :: "exec_request list"
  validateRequests :: "string list"
  successModals :: "(string \<times> jsnum) list"
  loadingShown :: bool
  networkStatus :: "bool option"
  saved :: "(jsnum \<times> jsnum \<times> js_value) option"

definition page_init :: page where
  "page_init =
     \<lparr>app = AppState_init, notifications = [], executeRequests = [], validateRequests = [],
      successModals = [], loadingShown = False, networkStatus = None, saved = None\<rparr>"

definition showNotification :: "notice \<Rightarrow> alert \<Rightarrow> page \<Rightarrow> page" where
  "showNotification m t w = w\<lparr>notifications := notifications w @ [(m, t)]\<rparr>"

text \<open>
  \<^verbatim>\<open>saveState\<close> writes the three keys from the current state; a failure of the store is
  caught and logged.
\<close>

definition saveState :: "page \<Rightarrow> page" where
  "saveState w =
     w\<lparr>saved := Some (currentXP (app w), currentLevel (app w), questLog (app w))\<rparr>"

section \<open>Progression ledger\<close>

definition showLevelUpEffect :: "page \<Rightarrow> page" where
  "showLevelUpEffect w = showNotification (LevelUpMsg (currentLevel (app w))) Success w"

definition addXP :: "jsnum \<Rightarrow> page \<Rightarrow> page" where
  "addXP amount w =
     (let oldLevel = currentLevel (app w);
          w1 = w\<lparr>app := (app w)\<lparr>currentXP := js_add (currentXP (app w)) amount\<rparr>\<rparr>;
          newLevel = levelOf (currentXP (app w1));
          w2 = (if js_gt newLevel oldLevel
                then showLevelUpEffect (w1\<lparr>app := (app w1)\<lparr>currentLevel := newLevel\<rparr>\<rparr>)
                else w1)
      in saveState w2)"

section \<open>Loading the persisted state\<close>

text \<open>
  \<^verbatim>\<open>localStorage.getItem\<close> and \<^verbatim>\<open>JSON.parse\<close> belong to the browser, so both are
  parameters: \<open>getItem k\<close> is \<open>Inl e\<close> when the store throws, \<open>Inr None\<close> for
  \<^verbatim>\<open>null\<close> (no such key) and \<open>Inr (Some s)\<close> for a stored string; \<open>parse s\<close> is
  \<open>Inl e\<close> when \<^verbatim>\<open>JSON.parse\<close> throws and the parsed value otherwise. A stored string
  is truthy when it is not empty.

  \<open>loadSavedState_try\<close> is the body of the \<^verbatim>\<open>try\<close> block: it returns the state reached
  and the exception that ended it, if one did. The closing \<^verbatim>\<open>console.log\<close> reads
  \<^verbatim>\<open>AppState.questLog.length\<close>, which throws when the quest log is \<^verbatim>\<open>null\<close>.
\<close>

definition loadSavedState_try ::
  "(string \<Rightarrow> exn + js_value) \<Rightarrow> (string \<Rightarrow> exn + string option) \<Rightarrow> AppState
     \<Rightarrow> AppState \<times> exn option" where
  "loadSavedState_try parse getItem s =
     (case getItem ''tokenQuest_xp'' of
        Inl e \<Rightarrow> (s, Some e)
      | Inr savedXP \<Rightarrow>
     (case getItem ''tokenQuest_level'' of
        Inl e \<Rightarrow> (s, Some e)
      | Inr savedLevel \<Rightarrow>
     (case getItem ''tokenQuest_questLog'' of
        Inl e \<Rightarrow> (s, Some e)
      | Inr savedQuestLog \<Rightarrow>
     (let s1 = (case savedXP of
                  Some x \<Rightarrow> if x \<noteq> [] then s\<lparr>currentXP := parseInt x\<rparr> else s
                | None \<Rightarrow> s);
          s2 = (case savedLevel of
                  Some l \<Rightarrow> if l \<noteq> [] then s1\<lparr>currentLevel := parseInt l\<rparr> else s1
                | None \<Rightarrow> s1);
          r3 = (case savedQuestLog of
                  Some q \<Rightarrow>
                    if q \<noteq> [] then
                      (case parse q of
                         Inl e \<Rightarrow> (s2, Some e)
                       | Inr v \<Rightarrow> (s2\<lparr>questLog := v\<rparr>, None))
                    else (s2, None)
                | None \<Rightarrow> (s2, None))
      in case r3 of
           (s3, Some e) \<Rightarrow> (s3, Some e)
         | (s3, None) \<Rightarrow> if questLog s3 = JNull then (s3, Some TypeError) else (s3, None)))))"

text \<open>
  \<^verbatim>\<open>loadSavedState\<close>: the \<^verbatim>\<open>catch\<close> clause logs whatever the body threw and goes on,
  so the function ends with the state the body had reached and throws nothing itself.
\<close>

definition loadSavedState ::
  "(string \<Rightarrow> exn + js_value) \<Rightarrow> (string \<Rightarrow> exn + string option) \<Rightarrow> AppState
     \<Rightarrow> AppState" where
  "loadSavedState parse getItem s = fst (loadSavedState_try parse getItem s)"

text \<open>
  What \<^verbatim>\<open>updateQuestLog\<close> throws. It reads \<^verbatim>\<open>AppState.questLog.length\<close>, returns when
  that is 0, and otherwise calls \<^verbatim>\<open>AppState.questLog.map\<close>: the first fails on
  \<^verbatim>\<open>null\<close>, the second on every value that is not an array. On an array of entries it
  throws nothing, and that is the only case in which \<^verbatim>\<open>addToQuestLog\<close> reaches it
  (there \<^verbatim>\<open>unshift\<close> has thrown before on any other value).
\<close>

definition updateQuestLog :: "AppState \<Rightarrow> exn option" where
  "updateQuestLog s =
     (case questLog s of
        JArray entries \<Rightarrow> None
      | JNull \<Rightarrow> Some TypeError
      | JOther z \<Rightarrow> if z then None else Some TypeError)"

text \<open>
  \<^verbatim>\<open>initializeUI\<close> calls \<^verbatim>\<open>updateXPDisplay\<close>, \<^verbatim>\<open>updateQuestLog\<close> and
  \<^verbatim>\<open>updateSwapButtonState\<close>; only the second can throw.
\<close>

definition initializeUI :: "AppState \<Rightarrow> exn option" where
  "initializeUI s = updateQuestLog s"

text \<open>
  The handler of \<^verbatim>\<open>DOMContentLoaded\<close>: \<^verbatim>\<open>loadSavedState\<close>, then \<^verbatim>\<open>initializeUI\<close>,
  then \<^verbatim>\<open>setupEventListeners\<close> and \<^verbatim>\<open>checkWalletConnection\<close>. Nothing in it catches
  an exception of \<^verbatim>\<open>initializeUI\<close>. The result is the state, whether the handler got
  as far as installing the event listeners, and the exception that leaves it.
\<close>

definition onDOMContentLoaded ::
  "(string \<Rightarrow> exn + js_value) \<Rightarrow> (string \<Rightarrow> exn + string option) \<Rightarrow> AppState
     \<Rightarrow> AppState \<times> bool \<times> exn option" where
  "onDOMContentLoaded parse getItem s =
     (let s1 = loadSavedState parse getItem s
      in case initializeUI s1 of
           Some e \<Rightarrow> (s1, False, Some e)
         | None \<Rightarrow> (s1, True, None))"

section \<open>Token registry\<close>

record token =
  address :: string
  symbol :: string
  name :: string
  decimals :: nat

definition CHAIN_ID :: string where
  "CHAIN_ID = ''0x61''"

text \<open>\<^verbatim>\<open>CONFIG.TOKENS\<close>, in the order \<^verbatim>\<open>Object.entries\<close> lists it.\<close>

definition TOKENS :: "(string \<times> token) list" where
  "TOKENS =
     [(''WBNB'', \<lparr>address = ''0xae13d989daC2f0dEbFf460aC112a837C89BAa7cd'', symbol = ''WBNB'',
                 name = ''Wrapped BNB'', decimals = 18\<rparr>),
      (''BUSD'', \<lparr>address = ''0x78867BbEeF44f2326bF8DDd1941a4439382EF2A7'', symbol = ''BUSD'',
                 name = ''Binance USD'', decimals = 18\<rparr>)]"

text \<open>
  \<^verbatim>\<open>toLowerCase\<close> on the bytes of a string: the ASCII capital letters are folded. No
  character outside ASCII folds to a hexadecimal digit or to \<^verbatim>\<open>x\<close>, so the comparison
  with the addresses of the registry comes out as in the source.
\<close>

definition toLowerChar :: "char \<Rightarrow> char" where
  "toLowerChar c =
     (case map_of (zip ''ABCDEFGHIJKLMNOPQRSTUVWXYZ'' ''abcdefghijklmnopqrstuvwxyz'') c of
        Some l \<Rightarrow> l
      | None \<Rightarrow> c)"

definition toLowerCase :: "string \<Rightarrow> string" where
  "toLowerCase s = map toLowerChar s"

fun findSymbol :: "(string \<times> token) list \<Rightarrow> string \<Rightarrow> string option" where
  "findSymbol [] a = None"
| "findSymbol ((k, tok) # rest) a =
     (if toLowerCase (address tok) = toLowerCase a then Some k else findSymbol rest a)"

definition getTokenSymbolByAddress :: "string \<Rightarrow> string option" where
  "getTokenSymbolByAddress a = findSymbol TOKENS a"

section \<open>Wallet session\<close>

text \<open>
  The wallet's answers are parameters: the reply to \<^verbatim>\<open>eth_chainId\<close>, to
  \<^verbatim>\<open>wallet_switchEthereumChain\<close> and to \<^verbatim>\<open>wallet_addEthereumChain\<close>. A failed request
  carries the \<^verbatim>\<open>code\<close> of the error, when it has one.
\<close>

datatype rpc_result = RpcOk | RpcError "int option"

record wallet =
  chainId_reply :: "exn + string"
  switch_reply :: rpc_result
  add_reply :: rpc_result

definition updateNetworkStatus :: "bool \<Rightarrow> page \<Rightarrow> page" where
  "updateNetworkStatus isCorrectNetwork w = w\<lparr>networkStatus := Some isCorrectNetwork\<rparr>"

definition switchToBSCTestnet :: "wallet \<Rightarrow> page \<Rightarrow> page" where
  "switchToBSCTestnet env w =
     (case switch_reply env of
        RpcOk \<Rightarrow> updateNetworkStatus True w
      | RpcError code \<Rightarrow>
          if code = Some 4902 then
            (case add_reply env of
               RpcOk \<Rightarrow> updateNetworkStatus True w
             | RpcError c \<Rightarrow> updateNetworkStatus False w)
          else updateNetworkStatus False w)"

definition verifyNetwork :: "wallet \<Rightarrow> page \<Rightarrow> page" where
  "verifyNetwork env w =
     (case chainId_reply env of
        Inl e \<Rightarrow> updateNetworkStatus False w
      | Inr chainId \<Rightarrow>
          if chainId \<noteq> CHAIN_ID then switchToBSCTestnet env w
          else updateNetworkStatus True w)"

text \<open>The request to \<^verbatim>\<open>/api/validate-wallet\<close>; its answer is only logged.\<close>

definition validateWalletWithBackend :: "string \<Rightarrow> page \<Rightarrow> page" where
  "validateWalletWithBackend a w = w\<lparr>validateRequests := validateRequests w @ [a]\<rparr>"

text \<open>
  \<^verbatim>\<open>connectWallet\<close>, run to its end with the wallet's answers. Its \<^verbatim>\<open>catch\<close> clause is
  reached only when the Web3 library or an element of the document is missing.
\<close>

definition connectWallet :: "wallet \<Rightarrow> string \<Rightarrow> page \<Rightarrow> page" where
  "connectWallet env acct w =
     (let w1 = w\<lparr>app := (app w)\<lparr>web3 := Some (), account := Some acct, isConnected := True\<rparr>\<rparr>;
          w2 = verifyNetwork env w1;
          w3 = validateWalletWithBackend acct w2
      in showNotification WalletConnectedMsg Success w3)"

definition disconnectWallet :: "page \<Rightarrow> page" where
  "disconnectWallet w =
     showNotification WalletDisconnectedMsg Info
       (w\<lparr>app := (app w)\<lparr>web3 := None, account := None, isConnected := False\<rparr>\<rparr>)"

definition handleAccountsChanged :: "wallet \<Rightarrow> string list \<Rightarrow> page \<Rightarrow> page" where
  "handleAccountsChanged env accounts w =
     (case accounts of
        [] \<Rightarrow> disconnectWallet w
      | a # rest \<Rightarrow> connectWallet env a w)"

definition handleChainChanged :: "string \<Rightarrow> page \<Rightarrow> page" where
  "handleChainChanged chainId w =
     (if chainId = CHAIN_ID then updateNetworkStatus True w else updateNetworkStatus False w)"

section \<open>Quest log\<close>

text \<open>
  \<^verbatim>\<open>addToQuestLog\<close>: \<^verbatim>\<open>unshift\<close> puts the entry in front, and a log longer than 10 is
  cut to its first 10 entries. \<^verbatim>\<open>unshift\<close> exists on arrays only: on any other value of
  \<^verbatim>\<open>AppState.questLog\<close> the call throws before anything is changed.
\<close>

definition addToQuestLog :: "quest_entry \<Rightarrow> page \<Rightarrow> page \<times> exn option" where
  "addToQuestLog entry w =
     (case questLog (app w) of
        JArray entries \<Rightarrow>
          (let log1 = entry # entries;
               log2 = (if length log1 > 10 then take 10 log1 else log1)
           in (saveState (w\<lparr>app := (app w)\<lparr>questLog := JArray log2\<rparr>\<rparr>), None))
      | JNull \<Rightarrow> (w, Some TypeError)
      | JOther z \<Rightarrow> (w, Some TypeError))"

section \<open>Swap orchestration\<close>

record formData =
  fromToken :: string
  toToken :: string
  amount :: string
  slippage :: string

text \<open>
  The answer of the execute service, with the fields of its interface; an optional field
  is \<open>None\<close> when the answer omits it.
\<close>

record exec_response =
  success :: bool
  transaction_hash :: "string option"
  xp_earned :: "int option"
  message :: "string option"
  error :: "string option"

text \<open>
  What \<^verbatim>\<open>await fetch(...)\<close> followed by \<^verbatim>\<open>await response.json()\<close> gives: an exception
  (the network call failed, the body is not JSON, or the body is not an object whose
  \<^verbatim>\<open>success\<close> can be read) or the answer.
\<close>

datatype fetch_result = Rejected exn | Response exec_response

text \<open>\<^verbatim>\<open>s || d\<close> for an optional string \<open>s\<close>: \<open>d\<close> when \<open>s\<close> is absent or empty.\<close>

definition orElse :: "string option \<Rightarrow> string \<Rightarrow> string" where
  "orElse s d = (case s of Some v \<Rightarrow> if v \<noteq> [] then v else d | None \<Rightarrow> d)"

definition showSuccessModal :: "string \<Rightarrow> jsnum \<Rightarrow> page \<Rightarrow> page" where
  "showSuccessModal m xpEarned w = w\<lparr>successModals := successModals w @ [(m, xpEarned)]\<rparr>"

text \<open>
  \<^verbatim>\<open>handleSwapSuccess\<close>. \<open>xpEarnedOf\<close> is \<^verbatim>\<open>result.xp_earned || 10\<close>, which takes 10
  when the field is absent and also when it is 0; \<open>questLogEntry\<close> is the object literal
  passed to \<^verbatim>\<open>addToQuestLog\<close>, with \<open>now\<close> for \<^verbatim>\<open>new Date().toISOString()\<close>. An
  exception of \<^verbatim>\<open>addToQuestLog\<close> leaves the function after \<^verbatim>\<open>addXP\<close> has run.
\<close>

definition xpEarnedOf :: "exec_response \<Rightarrow> jsnum" where
  "xpEarnedOf result =
     (case xp_earned result of
        Some n \<Rightarrow> if n \<noteq> 0 then Num n else Num 10
      | None \<Rightarrow> Num 10)"

definition questLogEntry :: "string \<Rightarrow> exec_response \<Rightarrow> formData \<Rightarrow> quest_entry" where
  "questLogEntry now result fd =
     \<lparr>entry_type = ''swap'',
      entry_fromToken = getTokenSymbolByAddress (fromToken fd),
      entry_toToken = getTokenSymbolByAddress (toToken fd),
      entry_amount = amount fd,
      entry_xpEarned = xpEarnedOf result,
      entry_timestamp = now,
      entry_txHash = transaction_hash result\<rparr>"

definition handleSwapSuccess ::
  "string \<Rightarrow> exec_response \<Rightarrow> formData \<Rightarrow> page \<Rightarrow> page \<times> exn option" where
  "handleSwapSuccess now result fd w =
     (let xpEarned = xpEarnedOf result;
          w1 = addXP xpEarned w
      in case addToQuestLog (questLogEntry now result fd) w1 of
           (w2, Some e) \<Rightarrow> (w2, Some e)
         | (w2, None) \<Rightarrow>
             (showSuccessModal (orElse (message result) ''Treasure found!'') xpEarned w2, None))"

text \<open>
  \<^verbatim>\<open>executeSwap\<close> suspends at \<^verbatim>\<open>await fetch\<close>, where other handlers may run, so it is
  two functions. \<open>executeSwap_until_fetch\<close> runs from the call to the point where the
  request has been sent; its second result says whether the function is now waiting for
  the answer (\<open>True\<close>) or has already ended in its \<^verbatim>\<open>catch\<close> clause (\<open>False\<close>).
  \<open>executeSwap_after_fetch\<close> runs from the answer to the end. \<open>swapCatch\<close> is the
  \<^verbatim>\<open>catch\<close> clause followed by the \<^verbatim>\<open>finally\<close> clause. \<open>toWei\<close> is
  \<^verbatim>\<open>web3.utils.toWei(_, 'ether')\<close> of the Web3 library, a parameter; it throws on a
  string that is not a decimal number.
\<close>

definition swapCatch :: "exn \<Rightarrow> page \<Rightarrow> page" where
  "swapCatch e w = (showNotification (SwapFailedMsg e) Failure w)\<lparr>loadingShown := False\<rparr>"

definition executeSwap_until_fetch ::
  "(string \<Rightarrow> exn + string) \<Rightarrow> formData \<Rightarrow> page \<Rightarrow> page \<times> bool" where
  "executeSwap_until_fetch toWei fd w =
     (let w1 = w\<lparr>loadingShown := True\<rparr>
      in case web3 (app w1) of
           None \<Rightarrow> (swapCatch TypeError w1, False)
         | Some u \<Rightarrow>
             (case toWei (amount fd) of
                Inl e \<Rightarrow> (swapCatch e w1, False)
              | Inr amountWei \<Rightarrow>
                  (w1\<lparr>executeRequests := executeRequests w1 @
                        [\<lparr>walletAddress = account (app w1), tokenIn = fromToken fd,
                          tokenOut = toToken fd, amountIn = amountWei,
                          slippage_sent = slippage fd\<rparr>]\<rparr>, True)))"

definition executeSwap_after_fetch ::
  "string \<Rightarrow> formData \<Rightarrow> fetch_result \<Rightarrow> page \<Rightarrow> page" where
  "executeSwap_after_fetch now fd r w =
     (case r of
        Rejected e \<Rightarrow> swapCatch e w
      | Response result \<Rightarrow>
          if success result then
            (case handleSwapSuccess now result fd w of
               (w', Some e) \<Rightarrow> swapCatch e w'
             | (w', None) \<Rightarrow> w'\<lparr>loadingShown := False\<rparr>)
          else swapCatch (Error (orElse (error result) ''Swap failed'')) w)"

text \<open>\<^verbatim>\<open>executeSwap\<close> with nothing running in between.\<close>

definition executeSwap ::
  "(string \<Rightarrow> exn + string) \<Rightarrow> string \<Rightarrow> fetch_result \<Rightarrow> formData \<Rightarrow> page \<Rightarrow> page" where
  "executeSwap toWei now r fd w =
     (case executeSwap_until_fetch toWei fd w of
        (w1, True) \<Rightarrow> executeSwap_after_fetch now fd r w1
      | (w1, False) \<Rightarrow> w1)"

text \<open>
  \<^verbatim>\<open>handleSwapSubmission\<close>, with the values of the form as \<open>fd\<close>: the three checks in the
  order of the source, then \<^verbatim>\<open>executeSwap\<close>. It suspends where \<^verbatim>\<open>executeSwap\<close> does.
\<close>

definition handleSwapSubmission_until_fetch ::
  "(string \<Rightarrow> exn + string) \<Rightarrow> formData \<Rightarrow> page \<Rightarrow> page \<times> bool" where
  "handleSwapSubmission_until_fetch toWei fd w =
     (if \<not> isConnected (app w) then (showNotification ConnectWalletFirst Warning w, False)
      else if fromToken fd = [] \<or> toToken fd = [] \<or> amount fd = []
        then (showNotification FillAllFields Warning w, False)
      else if fromToken fd = toToken fd
        then (showNotification SelectDifferentTokens Warning w, False)
      else executeSwap_until_fetch toWei fd w)"

definition handleSwapSubmission ::
  "(string \<Rightarrow> exn + string) \<Rightarrow> string \<Rightarrow> fetch_result \<Rightarrow> formData \<Rightarrow> page \<Rightarrow> page" where
  "handleSwapSubmission toWei now r fd w =
     (case handleSwapSubmission_until_fetch toWei fd w of
        (w1, True) \<Rightarrow> executeSwap_after_fetch now fd r w1
      | (w1, False) \<Rightarrow> w1)"

section \<open>Runs and sample inputs\<close>




text \<open>
  Concrete values for the parameters, used in the examples: a store that holds the given
  keys and never throws; \<^verbatim>\<open>JSON.parse\<close> and \<^verbatim>\<open>toWei\<close> on the few strings the examples
  pass to them (on every other string these two samples throw); a page with a connected
  wallet; a form with two distinct tokens of the registry.
\<close>

definition storeOf :: "(string \<times> string) list \<Rightarrow> string \<Rightarrow> exn + string option" where
  "storeOf kvs k = Inr (map_of kvs k)"

definition sampleParse :: "string \<Rightarrow> exn + js_value" where
  "sampleParse s =
     (case map_of [(''[]'', Inr (JArray [])), (''null'', Inr JNull), (''7'', Inr (JOther False))] s of
        Some r \<Rightarrow> r
      | None \<Rightarrow> Inl SyntaxError)"

definition sampleToWei :: "string \<Rightarrow> exn + string" where
  "sampleToWei s =
     (case map_of [(''0'', Inr ''0''), (''1'', Inr ''1000000000000000000''),
                   (''5'', Inr ''5000000000000000000'')] s of
        Some r \<Rightarrow> r
      | None \<Rightarrow> Inl (Error ''invalid number value''))"

definition connectedPage :: page where
  "connectedPage =
     page_init\<lparr>app := AppState_init\<lparr>web3 := Some (), account := Some ''0xA1'',
                                      isConnected := True\<rparr>\<rparr>"

definition sampleForm :: formData where
  "sampleForm =
     \<lparr>fromToken = ''0xae13d989daC2f0dEbFf460aC112a837C89BAa7cd'',
      toToken = ''0x78867BbEeF44f2326bF8DDd1941a4439382EF2A7'',
      amount = ''1'', slippage = ''0.5''\<rparr>"

definition okResponse :: "int option \<Rightarrow> exec_response" where
  "okResponse xp =
     \<lparr>success = True, transaction_hash = Some ''0xfeed'', xp_earned = xp,
      message = None, error = None\<rparr>"


definition sampleWallet :: wallet where
  "sampleWallet = \<lparr>chainId_reply = Inr ''0x61'', switch_reply = RpcOk, add_reply = RpcOk\<rparr>"

section \<open>Progression ledger: level and level-up\<close>

lemma addXP_currentXP:
  "currentXP (app (addXP a w)) = js_add (currentXP (app w)) a"
  by (simp add: addXP_def Let_def saveState_def showLevelUpEffect_def showNotification_def)

lemma addXP_currentLevel:
  "currentLevel (app (addXP a w)) =
     (if js_gt (levelOf (js_add (currentXP (app w)) a)) (currentLevel (app w))
      then levelOf (js_add (currentXP (app w)) a)
      else currentLevel (app w))"
  by (simp add: addXP_def Let_def saveState_def showLevelUpEffect_def showNotification_def)

lemma addXP_notifications:
  "notifications (addXP a w) =
     (if js_gt (levelOf (js_add (currentXP (app w)) a)) (currentLevel (app w))
      then notifications w @ [(LevelUpMsg (levelOf (js_add (currentXP (app w)) a)), Success)]
      else notifications w)"
  by (simp add: addXP_def Let_def saveState_def showLevelUpEffect_def showNotification_def)

lemma addXP_unchanged:
  "questLog (app (addXP a w)) = questLog (app w)"
  "web3 (app (addXP a w)) = web3 (app w)"
  "account (app (addXP a w)) = account (app w)"
  "isConnected (app (addXP a w)) = isConnected (app w)"
  "executeRequests (addXP a w) = executeRequests w"
  "validateRequests (addXP a w) = validateRequests w"
  "successModals (addXP a w) = successModals w"
  "loadingShown (addXP a w) = loadingShown w"
  "networkStatus (addXP a w) = networkStatus w"
  by (simp_all add: addXP_def Let_def saveState_def showLevelUpEffect_def showNotification_def)

lemma js_lt_not_after_max: "\<not> js_lt (if js_gt n l then n else l) l"
  by (cases n; cases l) auto

text \<open>
  Claim C1, as amended. From a state whose XP total is an integer and whose level equals
  \<open>floor(xpTotal / 100) + 1\<close>, \<^verbatim>\<open>addXP\<close> of a non-negative amount gives a state in which
  the level again equals \<open>floor(xpTotal / 100) + 1\<close>. In every state and for every amount,
  \<^verbatim>\<open>addXP\<close> assigns the level only the value derived from the new total, and only when
  that value exceeds the stored level; otherwise, and so whenever the stored level is
  above the derived one, the stored level is kept.
\<close>

theorem addXP_level_invariant:
  assumes "currentXP (app w) = Num x"
    and "currentLevel (app w) = levelOf (currentXP (app w))"
    and "0 \<le> a"
  shows "currentXP (app (addXP (Num a) w)) = Num (x + a)
    \<and> currentLevel (app (addXP (Num a) w)) = levelOf (currentXP (app (addXP (Num a) w)))
    \<and> currentLevel (app (addXP (Num a) w)) = Num ((x + a) div 100 + 1)
    \<and> currentLevel (app (addXP b v)) =
         (if js_gt (levelOf (currentXP (app (addXP b v)))) (currentLevel (app v))
          then levelOf (currentXP (app (addXP b v)))
          else currentLevel (app v))
    \<and> (js_gt (currentLevel (app v)) (levelOf (currentXP (app (addXP b v)))) \<longrightarrow>
          currentLevel (app (addXP b v)) = currentLevel (app v))"
proof -
  have "x div 100 \<le> (x + a) div 100"
    using assms(3) by (simp add: zdiv_mono1)
  then have inv: "currentXP (app (addXP (Num a) w)) = Num (x + a)
    \<and> currentLevel (app (addXP (Num a) w)) = levelOf (currentXP (app (addXP (Num a) w)))
    \<and> currentLevel (app (addXP (Num a) w)) = Num ((x + a) div 100 + 1)"
    using assms(1,2) by (auto simp: addXP_currentXP addXP_currentLevel)
  have guard: "currentLevel (app (addXP b v)) =
         (if js_gt (levelOf (currentXP (app (addXP b v)))) (currentLevel (app v))
          then levelOf (currentXP (app (addXP b v)))
          else currentLevel (app v))"
    by (simp add: addXP_currentXP addXP_currentLevel)
  have "\<not> js_gt n l" if "js_gt l n" for n l
    using that by (cases n; cases l) auto
  with guard have kept: "js_gt (currentLevel (app v)) (levelOf (currentXP (app (addXP b v))))
      \<longrightarrow> currentLevel (app (addXP b v)) = currentLevel (app v)"
    by simp
  from inv guard kept show ?thesis by blast
qed

text \<open>
  The theorem at \<open>{xpTotal: 95, level: 1}\<close> and an award of 250: the result is
  \<open>{345, 4}\<close>. And at \<open>{xpTotal: 20, level: 3}\<close> and an award of 50: the stored level 3,
  above the derived level 1, is kept.
\<close>

theorem addXP_level_invariant_witness:
  "currentXP (app (addXP (Num 250) (page_init\<lparr>app := AppState_init\<lparr>currentXP := Num 95\<rparr>\<rparr>)))
     = Num 345
   \<and> currentLevel (app (addXP (Num 250) (page_init\<lparr>app := AppState_init\<lparr>currentXP := Num 95\<rparr>\<rparr>)))
     = Num 4
   \<and> currentLevel (app (addXP (Num 50)
        (page_init\<lparr>app := AppState_init\<lparr>currentXP := Num 20, currentLevel := Num 3\<rparr>\<rparr>)))
     = Num 3"
proof -
  have h: "currentXP (app (page_init\<lparr>app := AppState_init\<lparr>currentXP := Num 95\<rparr>\<rparr>)) = Num 95"
    "currentLevel (app (page_init\<lparr>app := AppState_init\<lparr>currentXP := Num 95\<rparr>\<rparr>))
       = levelOf (currentXP (app (page_init\<lparr>app := AppState_init\<lparr>currentXP := Num 95\<rparr>\<rparr>)))"
    "(0::int) \<le> 250"
    by (simp_all add: page_init_def AppState_init_def)
  have k: "currentXP (app (addXP (Num 50)
        (page_init\<lparr>app := AppState_init\<lparr>currentXP := Num 20, currentLevel := Num 3\<rparr>\<rparr>)))
      = Num 70"
    "currentLevel (app
        (page_init\<lparr>app := AppState_init\<lparr>currentXP := Num 20, currentLevel := Num 3\<rparr>\<rparr>))
      = Num 3"
    by (simp_all add: addXP_currentXP page_init_def AppState_init_def)
  from addXP_level_invariant [OF h, of "Num 50"
      "page_init\<lparr>app := AppState_init\<lparr>currentXP := Num 20, currentLevel := Num 3\<rparr>\<rparr>"]
  show ?thesis by (simp add: k)
qed

text \<open>
  Claim C1 as stated fails: a starting state with \<open>xpTotal = 0\<close> and a stored level of 5
  (the two are loaded from separate keys) keeps level 5 after \<^verbatim>\<open>addXP(10)\<close>, while
  \<open>floor(10 / 100) + 1 = 1\<close>.
\<close>

theorem addXP_level_invariant_counterexample:
  "currentXP (app (addXP (Num 10) (page_init\<lparr>app := AppState_init\<lparr>currentLevel := Num 5\<rparr>\<rparr>)))
     = Num 10
   \<and> currentLevel (app (addXP (Num 10) (page_init\<lparr>app := AppState_init\<lparr>currentLevel := Num 5\<rparr>\<rparr>)))
     = Num 5
   \<and> currentLevel (app (addXP (Num 10) (page_init\<lparr>app := AppState_init\<lparr>currentLevel := Num 5\<rparr>\<rparr>)))
     \<noteq> levelOf (currentXP
           (app (addXP (Num 10) (page_init\<lparr>app := AppState_init\<lparr>currentLevel := Num 5\<rparr>\<rparr>))))"
  by (simp add: addXP_currentXP addXP_currentLevel page_init_def AppState_init_def)

text \<open>
  Claim C9. From a state that satisfies the level invariant, \<^verbatim>\<open>addXP\<close> shows the
  level-up notification (once, with the new level) exactly when the award crosses a
  100-point boundary upwards, that is when the recomputed level exceeds the previous one,
  and shows nothing otherwise; the new total is the sum and the new level the derived one.
\<close>

theorem addXP_level_up_signal:
  assumes "currentXP (app w) = Num x"
    and "currentLevel (app w) = Num (x div 100 + 1)"
  shows "notifications (addXP (Num a) w) =
           (if x div 100 < (x + a) div 100
            then notifications w @ [(LevelUpMsg (Num ((x + a) div 100 + 1)), Success)]
            else notifications w)
    \<and> currentXP (app (addXP (Num a) w)) = Num (x + a)
    \<and> currentLevel (app (addXP (Num a) w)) =
           (if x div 100 < (x + a) div 100 then Num ((x + a) div 100 + 1)
            else Num (x div 100 + 1))"
  using assms by (simp add: addXP_currentXP addXP_currentLevel addXP_notifications)

text \<open>
  The example of the claim: from \<open>{xpTotal: 95, level: 1}\<close>, \<^verbatim>\<open>addXP(10)\<close> gives
  \<open>{xpTotal: 105, level: 2}\<close> and one level-up notification.
\<close>

theorem addXP_level_up_signal_witness:
  "notifications (addXP (Num 10) (page_init\<lparr>app := AppState_init\<lparr>currentXP := Num 95\<rparr>\<rparr>))
     = [(LevelUpMsg (Num 2), Success)]
   \<and> currentXP (app (addXP (Num 10) (page_init\<lparr>app := AppState_init\<lparr>currentXP := Num 95\<rparr>\<rparr>)))
     = Num 105
   \<and> currentLevel (app (addXP (Num 10) (page_init\<lparr>app := AppState_init\<lparr>currentXP := Num 95\<rparr>\<rparr>)))
     = Num 2"
  using addXP_level_up_signal [of "page_init\<lparr>app := AppState_init\<lparr>currentXP := Num 95\<rparr>\<rparr>" 95 10]
  by (simp add: page_init_def AppState_init_def)

text \<open>
  Claim C10. For every starting state, also one whose stored level is above
  \<open>floor(xpTotal / 100) + 1\<close> or whose counters are \<open>NaN\<close>, and every amount,
  \<^verbatim>\<open>addXP\<close> assigns the level only when the recomputed level is greater than the stored
  one and leaves it unchanged otherwise; the level after is never less than before.
\<close>

theorem addXP_level_never_decreases:
  "currentLevel (app (addXP a w)) =
     (if js_gt (levelOf (js_add (currentXP (app w)) a)) (currentLevel (app w))
      then levelOf (js_add (currentXP (app w)) a)
      else currentLevel (app w))
   \<and> \<not> js_lt (currentLevel (app (addXP a w))) (currentLevel (app w))"
  by (simp only: addXP_currentLevel js_lt_not_after_max simp_thms)

text \<open>The theorem at \<open>{xpTotal: 40, level: 7}\<close> and an award of 30: the level stays 7.\<close>

theorem addXP_level_never_decreases_witness:
  "currentLevel (app (addXP (Num 30)
      (page_init\<lparr>app := AppState_init\<lparr>currentLevel := Num 7, currentXP := Num 40\<rparr>\<rparr>))) = Num 7"
  using addXP_level_never_decreases
    [of "Num 30" "page_init\<lparr>app := AppState_init\<lparr>currentLevel := Num 7, currentXP := Num 40\<rparr>\<rparr>"]
  by (simp add: page_init_def AppState_init_def)

section \<open>Loading at startup\<close>

lemma loadSavedState_currentXP:
  "currentXP (loadSavedState parse getItem s) =
     (case (getItem ''tokenQuest_xp'', getItem ''tokenQuest_level'',
            getItem ''tokenQuest_questLog'') of
        (Inr (Some x), Inr sl, Inr sq) \<Rightarrow> if x \<noteq> [] then parseInt x else currentXP s
      | _ \<Rightarrow> currentXP s)"
  by (simp add: loadSavedState_def loadSavedState_try_def Let_def
      split: sum.splits option.splits prod.splits)

lemma loadSavedState_currentLevel:
  "currentLevel (loadSavedState parse getItem s) =
     (case (getItem ''tokenQuest_xp'', getItem ''tokenQuest_level'',
            getItem ''tokenQuest_questLog'') of
        (Inr sx, Inr (Some l), Inr sq) \<Rightarrow> if l \<noteq> [] then parseInt l else currentLevel s
      | _ \<Rightarrow> currentLevel s)"
  by (simp add: loadSavedState_def loadSavedState_try_def Let_def
      split: sum.splits option.splits prod.splits)

lemma loadSavedState_questLog:
  "questLog (loadSavedState parse getItem s) =
     (case (getItem ''tokenQuest_xp'', getItem ''tokenQuest_level'',
            getItem ''tokenQuest_questLog'') of
        (Inr sx, Inr sl, Inr (Some q)) \<Rightarrow>
          if q \<noteq> [] then (case parse q of Inl e \<Rightarrow> questLog s | Inr v \<Rightarrow> v) else questLog s
      | _ \<Rightarrow> questLog s)"
  by (simp add: loadSavedState_def loadSavedState_try_def Let_def
      split: sum.splits option.splits prod.splits)

lemma onDOMContentLoaded_outcome:
  "snd (onDOMContentLoaded parse getItem s) =
     (if questLog (loadSavedState parse getItem s) = JNull
         \<or> questLog (loadSavedState parse getItem s) = JOther False
      then (False, Some TypeError) else (True, None))"
  by (simp add: onDOMContentLoaded_def initializeUI_def updateQuestLog_def Let_def
      split: js_value.splits)

text \<open>
  Claim C3, as amended. At startup \<^verbatim>\<open>loadSavedState\<close> catches whatever its own body
  throws. When the stored XP value is absent, empty or cannot be read, the XP total stays
  at the default 0, and likewise the level stays at 1, for every value of the quest-log
  key, malformed or not. A stored XP or level value that is not empty is not validated:
  when the three keys can be read, the counter becomes \<^verbatim>\<open>parseInt\<close> of the stored
  string (\<open>NaN\<close> when it has no leading digits). Startup as a whole does crash on some
  stored quest logs: an exception leaves the \<^verbatim>\<open>DOMContentLoaded\<close> handler exactly when
  the three keys can be read and the stored quest log is not empty and parses to
  \<^verbatim>\<open>null\<close> or to another value that is not an array and whose \<^verbatim>\<open>length\<close> is not 0;
  the exception is a \<^verbatim>\<open>TypeError\<close> from \<^verbatim>\<open>updateQuestLog\<close> and the event listeners
  are then never installed. In every other case (the key absent, empty, unreadable, not
  JSON, an array of entries) the handler runs through.
\<close>

theorem loadSavedState_defaults:
  "((\<forall>x. getItem ''tokenQuest_xp'' = Inr (Some x) \<longrightarrow> x = []) \<longrightarrow>
        currentXP (loadSavedState parse getItem AppState_init) = Num 0)
   \<and> ((\<forall>l. getItem ''tokenQuest_level'' = Inr (Some l) \<longrightarrow> l = []) \<longrightarrow>
        currentLevel (loadSavedState parse getItem AppState_init) = Num 1)
   \<and> (getItem ''tokenQuest_xp'' = Inr (Some x) \<and> x \<noteq> [] \<and>
        getItem ''tokenQuest_level'' = Inr sl \<and> getItem ''tokenQuest_questLog'' = Inr sq \<longrightarrow>
        currentXP (loadSavedState parse getItem AppState_init) = parseInt x)
   \<and> (getItem ''tokenQuest_xp'' = Inr sx \<and> getItem ''tokenQuest_level'' = Inr (Some l) \<and>
        l \<noteq> [] \<and> getItem ''tokenQuest_questLog'' = Inr sq \<longrightarrow>
        currentLevel (loadSavedState parse getItem AppState_init) = parseInt l)
   \<and> fst (onDOMContentLoaded parse getItem AppState_init)
        = loadSavedState parse getItem AppState_init
   \<and> ((\<exists>kx kl q. getItem ''tokenQuest_xp'' = Inr kx \<and> getItem ''tokenQuest_level'' = Inr kl
            \<and> getItem ''tokenQuest_questLog'' = Inr (Some q) \<and> q \<noteq> []
            \<and> (parse q = Inr JNull \<or> parse q = Inr (JOther False)))
        \<longrightarrow> snd (onDOMContentLoaded parse getItem AppState_init) = (False, Some TypeError))
   \<and> (\<not> (\<exists>kx kl q. getItem ''tokenQuest_xp'' = Inr kx \<and> getItem ''tokenQuest_level'' = Inr kl
            \<and> getItem ''tokenQuest_questLog'' = Inr (Some q) \<and> q \<noteq> []
            \<and> (parse q = Inr JNull \<or> parse q = Inr (JOther False)))
        \<longrightarrow> snd (onDOMContentLoaded parse getItem AppState_init) = (True, None))"
proof -
  have init: "currentXP AppState_init = Num 0" "currentLevel AppState_init = Num 1"
    "questLog AppState_init = JArray []"
    by (simp_all add: AppState_init_def)
  let ?bad = "\<exists>kx kl q. getItem ''tokenQuest_xp'' = Inr kx \<and> getItem ''tokenQuest_level'' = Inr kl
            \<and> getItem ''tokenQuest_questLog'' = Inr (Some q) \<and> q \<noteq> []
            \<and> (parse q = Inr JNull \<or> parse q = Inr (JOther False))"
  have c1: "(\<forall>x. getItem ''tokenQuest_xp'' = Inr (Some x) \<longrightarrow> x = []) \<longrightarrow>
        currentXP (loadSavedState parse getItem AppState_init) = Num 0"
    by (auto simp: loadSavedState_currentXP init split: sum.splits option.splits)
  have c2: "(\<forall>l. getItem ''tokenQuest_level'' = Inr (Some l) \<longrightarrow> l = []) \<longrightarrow>
        currentLevel (loadSavedState parse getItem AppState_init) = Num 1"
    by (auto simp: loadSavedState_currentLevel init split: sum.splits option.splits)
  have c3: "getItem ''tokenQuest_xp'' = Inr (Some x) \<and> x \<noteq> [] \<and>
        getItem ''tokenQuest_level'' = Inr sl \<and> getItem ''tokenQuest_questLog'' = Inr sq \<longrightarrow>
        currentXP (loadSavedState parse getItem AppState_init) = parseInt x"
    by (simp add: loadSavedState_currentXP)
  have c4: "getItem ''tokenQuest_xp'' = Inr sx \<and> getItem ''tokenQuest_level'' = Inr (Some l) \<and>
        l \<noteq> [] \<and> getItem ''tokenQuest_questLog'' = Inr sq \<longrightarrow>
        currentLevel (loadSavedState parse getItem AppState_init) = parseInt l"
    by (simp add: loadSavedState_currentLevel)
  have c5: "fst (onDOMContentLoaded parse getItem AppState_init)
        = loadSavedState parse getItem AppState_init"
    by (simp add: onDOMContentLoaded_def Let_def split: option.splits)
  have loaded: "(questLog (loadSavedState parse getItem AppState_init) = JNull
         \<or> questLog (loadSavedState parse getItem AppState_init) = JOther False) = ?bad"
    by (auto simp: loadSavedState_questLog init split: sum.splits option.splits)
  have c6: "?bad \<longrightarrow>
      snd (onDOMContentLoaded parse getItem AppState_init) = (False, Some TypeError)"
    using loaded by (simp only: onDOMContentLoaded_outcome) simp
  have c7: "\<not> ?bad \<longrightarrow> snd (onDOMContentLoaded parse getItem AppState_init) = (True, None)"
    using loaded by (simp only: onDOMContentLoaded_outcome) simp
  from c1 c2 c3 c4 c5 c6 c7 show ?thesis by blast
qed

text \<open>
  The theorem at four stores: one that holds only a quest log that is not JSON (the
  defaults stay and the handler runs through); one that holds \<^verbatim>\<open>"12px"\<close> as XP,
  \<^verbatim>\<open>"3"\<close> as level and the same quest log (the counters become 12 and 3); one that
  holds U+00A0 followed by \<^verbatim>\<open>42\<close> as XP (the total becomes 42); and one whose quest
  log is \<^verbatim>\<open>null\<close> (the handler throws before the listeners are installed).
\<close>

theorem loadSavedState_defaults_witness:
  "currentXP (loadSavedState sampleParse
          (storeOf [(''tokenQuest_questLog'', ''{not json'')]) AppState_init) = Num 0
   \<and> currentLevel (loadSavedState sampleParse
          (storeOf [(''tokenQuest_questLog'', ''{not json'')]) AppState_init) = Num 1
   \<and> snd (onDOMContentLoaded sampleParse
          (storeOf [(''tokenQuest_questLog'', ''{not json'')]) AppState_init) = (True, None)
   \<and> currentXP (loadSavedState sampleParse
          (storeOf [(''tokenQuest_xp'', ''12px''), (''tokenQuest_level'', ''3''),
                    (''tokenQuest_questLog'', ''{not json'')]) AppState_init) = Num 12
   \<and> currentLevel (loadSavedState sampleParse
          (storeOf [(''tokenQuest_xp'', ''12px''), (''tokenQuest_level'', ''3''),
                    (''tokenQuest_questLog'', ''{not json'')]) AppState_init) = Num 3
   \<and> currentXP (loadSavedState sampleParse
          (storeOf [(''tokenQuest_xp'', CHR 0xC2 # CHR 0xA0 # ''42'')]) AppState_init) = Num 42
   \<and> snd (onDOMContentLoaded sampleParse
          (storeOf [(''tokenQuest_questLog'', ''null'')]) AppState_init)
       = (False, Some TypeError)"
proof -
  have p: "parseInt ''12px'' = Num 12" "parseInt ''3'' = Num 3"
    "parseInt (CHR 0xC2 # CHR 0xA0 # ''42'') = Num 42"
    by (simp_all add: parseInt_def whiteSpace_def digitValue_def digitTable_def)
  have q: "sampleParse ''{not json'' = Inl SyntaxError" "sampleParse ''null'' = Inr JNull"
    by (simp_all add: sampleParse_def)
  from loadSavedState_defaults
      [of "storeOf [(''tokenQuest_questLog'', ''{not json'')]" sampleParse]
  have a: "currentXP (loadSavedState sampleParse
          (storeOf [(''tokenQuest_questLog'', ''{not json'')]) AppState_init) = Num 0
   \<and> currentLevel (loadSavedState sampleParse
          (storeOf [(''tokenQuest_questLog'', ''{not json'')]) AppState_init) = Num 1
   \<and> snd (onDOMContentLoaded sampleParse
          (storeOf [(''tokenQuest_questLog'', ''{not json'')]) AppState_init) = (True, None)"
    by (simp add: storeOf_def q)
  from loadSavedState_defaults
      [of "storeOf [(''tokenQuest_xp'', ''12px''), (''tokenQuest_level'', ''3''),
                    (''tokenQuest_questLog'', ''{not json'')]" sampleParse
          "''12px''" "Some ''3''" "Some ''{not json''" "Some ''12px''" "''3''"]
  have b: "currentXP (loadSavedState sampleParse
          (storeOf [(''tokenQuest_xp'', ''12px''), (''tokenQuest_level'', ''3''),
                    (''tokenQuest_questLog'', ''{not json'')]) AppState_init) = Num 12
   \<and> currentLevel (loadSavedState sampleParse
          (storeOf [(''tokenQuest_xp'', ''12px''), (''tokenQuest_level'', ''3''),
                    (''tokenQuest_questLog'', ''{not json'')]) AppState_init) = Num 3"
    by (simp add: storeOf_def p)
  from loadSavedState_defaults
      [of "storeOf [(''tokenQuest_xp'', CHR 0xC2 # CHR 0xA0 # ''42'')]" sampleParse
          "CHR 0xC2 # CHR 0xA0 # ''42''" None None]
  have c: "currentXP (loadSavedState sampleParse
          (storeOf [(''tokenQuest_xp'', CHR 0xC2 # CHR 0xA0 # ''42'')]) AppState_init) = Num 42"
    by (simp add: storeOf_def p)
  from loadSavedState_defaults
      [of "storeOf [(''tokenQuest_questLog'', ''null'')]" sampleParse]
  have d: "snd (onDOMContentLoaded sampleParse
          (storeOf [(''tokenQuest_questLog'', ''null'')]) AppState_init)
       = (False, Some TypeError)"
    by (simp add: storeOf_def q)
  from a b c d show ?thesis by blast
qed

text \<open>
  Claim C3 as stated fails, in both of its parts: with the malformed XP value
  \<^verbatim>\<open>"abc"\<close> in the store the XP total after loading is \<open>NaN\<close>, not the default 0; and
  with the quest-log value \<^verbatim>\<open>null\<close> in the store the startup handler throws.
\<close>

theorem loadSavedState_malformed_counterexample:
  "loadSavedState sampleParse (storeOf [(''tokenQuest_xp'', ''abc'')]) AppState_init
     = AppState_init\<lparr>currentXP := NaN\<rparr>
   \<and> currentXP (loadSavedState sampleParse (storeOf [(''tokenQuest_xp'', ''abc'')])
         AppState_init) \<noteq> Num 0
   \<and> onDOMContentLoaded sampleParse (storeOf [(''tokenQuest_questLog'', ''null'')])
         AppState_init
     = (AppState_init\<lparr>questLog := JNull\<rparr>, False, Some TypeError)"
  by (simp add: onDOMContentLoaded_def initializeUI_def updateQuestLog_def loadSavedState_def
      loadSavedState_try_def storeOf_def sampleParse_def AppState_init_def parseInt_def
      whiteSpace_def digitValue_def digitTable_def)

section \<open>Swap execution: the failure path\<close>

lemma swapCatch_fields:
  "app (swapCatch e w) = app w"
  "saved (swapCatch e w) = saved w"
  "successModals (swapCatch e w) = successModals w"
  "executeRequests (swapCatch e w) = executeRequests w"
  "notifications (swapCatch e w) = notifications w @ [(SwapFailedMsg e, Failure)]"
  by (simp_all add: swapCatch_def showNotification_def)

lemma executeSwap_until_fetch_fields:
  "app (fst (executeSwap_until_fetch toWei fd w)) = app w"
  "saved (fst (executeSwap_until_fetch toWei fd w)) = saved w"
  "successModals (fst (executeSwap_until_fetch toWei fd w)) = successModals w"
  by (simp_all add: executeSwap_until_fetch_def Let_def swapCatch_fields
      split: option.splits sum.splits)

lemma executeSwap_until_fetch_notifications:
  "notifications (fst (executeSwap_until_fetch toWei fd w)) =
     (if snd (executeSwap_until_fetch toWei fd w) then notifications w
      else notifications w @
        [(SwapFailedMsg (case web3 (app w) of None \<Rightarrow> TypeError
             | Some u \<Rightarrow> (case toWei (amount fd) of Inl e \<Rightarrow> e | Inr v \<Rightarrow> TypeError)),
          Failure)])"
  by (simp add: executeSwap_until_fetch_def Let_def swapCatch_fields
      split: option.splits sum.splits)

lemma after_fetch_rejected:
  "executeSwap_after_fetch now fd (Rejected e) w = swapCatch e w"
  by (simp add: executeSwap_after_fetch_def)

lemma after_fetch_failed:
  "\<not> success result \<Longrightarrow>
   executeSwap_after_fetch now fd (Response result) w =
     swapCatch (Error (orElse (error result) ''Swap failed'')) w"
  by (simp add: executeSwap_after_fetch_def)

lemma executeSwap_split:
  "executeSwap toWei now r fd w =
     (if snd (executeSwap_until_fetch toWei fd w)
      then executeSwap_after_fetch now fd r (fst (executeSwap_until_fetch toWei fd w))
      else fst (executeSwap_until_fetch toWei fd w))"
  by (simp add: executeSwap_def split: prod.splits)

text \<open>
  Claim C4. When the network call fails (\<open>Rejected e\<close>) or the execute service answers
  with \<^verbatim>\<open>success\<close> false, the swap ends with the failure notification and
  \<^verbatim>\<open>AppState\<close> (XP total, level, quest log and the rest) and the persisted values are
  unchanged. The notification carries the exception of the failed call, or the error text
  of the answer when it has one that is not empty, or the generic text
  \<^verbatim>\<open>Swap failed\<close>. This holds for the part of \<^verbatim>\<open>executeSwap\<close> that runs once the answer
  has arrived, in whatever state it finds, and for \<^verbatim>\<open>executeSwap\<close> as a whole; and
  \<^verbatim>\<open>executeSwap\<close> changes \<^verbatim>\<open>AppState\<close> only when the answer reports success.
\<close>

theorem executeSwap_failure_keeps_state:
  "(app (executeSwap_after_fetch now fd (Rejected e) w) = app w
      \<and> saved (executeSwap_after_fetch now fd (Rejected e) w) = saved w
      \<and> notifications (executeSwap_after_fetch now fd (Rejected e) w)
          = notifications w @ [(SwapFailedMsg e, Failure)])
   \<and> (\<not> success result \<longrightarrow>
        app (executeSwap_after_fetch now fd (Response result) w) = app w
      \<and> saved (executeSwap_after_fetch now fd (Response result) w) = saved w
      \<and> notifications (executeSwap_after_fetch now fd (Response result) w)
          = notifications w @
            [(SwapFailedMsg (Error (orElse (error result) ''Swap failed'')), Failure)])
   \<and> (\<not> success result \<and> error result = Some m \<and> m \<noteq> [] \<longrightarrow>
        notifications (executeSwap_after_fetch now fd (Response result) w)
          = notifications w @ [(SwapFailedMsg (Error m), Failure)])
   \<and> (\<not> success result \<and> (error result = None \<or> error result = Some []) \<longrightarrow>
        notifications (executeSwap_after_fetch now fd (Response result) w)
          = notifications w @ [(SwapFailedMsg (Error ''Swap failed''), Failure)])
   \<and> (r = Rejected e \<or> (r = Response result \<and> \<not> success result) \<longrightarrow>
        app (executeSwap toWei now r fd w) = app w
      \<and> saved (executeSwap toWei now r fd w) = saved w
      \<and> (\<exists>reason. notifications (executeSwap toWei now r fd w)
            = notifications w @ [(SwapFailedMsg reason, Failure)]))
   \<and> (app (executeSwap toWei now r fd w) \<noteq> app w \<longrightarrow>
        (\<exists>res. r = Response res \<and> success res))"
proof -
  have c1: "app (executeSwap_after_fetch now fd (Rejected e) w) = app w
      \<and> saved (executeSwap_after_fetch now fd (Rejected e) w) = saved w
      \<and> notifications (executeSwap_after_fetch now fd (Rejected e) w)
          = notifications w @ [(SwapFailedMsg e, Failure)]"
    by (simp add: after_fetch_rejected swapCatch_fields)
  have c2: "\<not> success result \<longrightarrow>
        app (executeSwap_after_fetch now fd (Response result) w) = app w
      \<and> saved (executeSwap_after_fetch now fd (Response result) w) = saved w
      \<and> notifications (executeSwap_after_fetch now fd (Response result) w)
          = notifications w @
            [(SwapFailedMsg (Error (orElse (error result) ''Swap failed'')), Failure)]"
    by (simp add: after_fetch_failed swapCatch_fields)
  have c3: "\<not> success result \<and> error result = Some m \<and> m \<noteq> [] \<longrightarrow>
        notifications (executeSwap_after_fetch now fd (Response result) w)
          = notifications w @ [(SwapFailedMsg (Error m), Failure)]"
    by (simp add: after_fetch_failed swapCatch_fields orElse_def)
  have c4: "\<not> success result \<and> (error result = None \<or> error result = Some []) \<longrightarrow>
        notifications (executeSwap_after_fetch now fd (Response result) w)
          = notifications w @ [(SwapFailedMsg (Error ''Swap failed''), Failure)]"
    by (auto simp: after_fetch_failed swapCatch_fields orElse_def)
  have fail: "app (executeSwap toWei now r' fd w) = app w
      \<and> saved (executeSwap toWei now r' fd w) = saved w
      \<and> (\<exists>reason. notifications (executeSwap toWei now r' fd w)
            = notifications w @ [(SwapFailedMsg reason, Failure)])"
    if "r' = Rejected e' \<or> (r' = Response res \<and> \<not> success res)" for r' e' res
    using that
    by (auto simp: executeSwap_split after_fetch_rejected after_fetch_failed swapCatch_fields
        executeSwap_until_fetch_fields executeSwap_until_fetch_notifications)
  have c5: "r = Rejected e \<or> (r = Response result \<and> \<not> success result) \<longrightarrow>
        app (executeSwap toWei now r fd w) = app w
      \<and> saved (executeSwap toWei now r fd w) = saved w
      \<and> (\<exists>reason. notifications (executeSwap toWei now r fd w)
            = notifications w @ [(SwapFailedMsg reason, Failure)])"
    using fail by blast
  have c6: "app (executeSwap toWei now r fd w) \<noteq> app w \<longrightarrow>
        (\<exists>res. r = Response res \<and> success res)"
  proof (cases r)
    case (Rejected e')
    then show ?thesis using fail [of r e'] by simp
  next
    case (Response res)
    then show ?thesis using fail [of r _ res] by (cases "success res") auto
  qed
  from c1 c2 c3 c4 c5 c6 show ?thesis by blast
qed

text \<open>
  The theorem at the connected sample page and an answer with \<^verbatim>\<open>success\<close> false and
  the error text \<^verbatim>\<open>pool empty\<close>: the state is unchanged and the notification carries the
  text.
\<close>

theorem executeSwap_failure_keeps_state_witness:
  "app (executeSwap sampleToWei ''t1''
          (Response ((okResponse None)\<lparr>success := False, error := Some ''pool empty''\<rparr>))
          sampleForm connectedPage) = app connectedPage
   \<and> notifications (executeSwap_after_fetch ''t1'' sampleForm
          (Response ((okResponse None)\<lparr>success := False, error := Some ''pool empty''\<rparr>))
          connectedPage) = [(SwapFailedMsg (Error ''pool empty''), Failure)]"
  using executeSwap_failure_keeps_state
      [of "''t1''" sampleForm NetworkError connectedPage
          "(okResponse None)\<lparr>success := False, error := Some ''pool empty''\<rparr>" "''pool empty''"
          "Response ((okResponse None)\<lparr>success := False, error := Some ''pool empty''\<rparr>)"
          sampleToWei]
  by (simp add: connectedPage_def page_init_def orElse_def)

section \<open>Quest log: bound and order\<close>

lemma addToQuestLog_array:
  "questLog (app w) = JArray entries \<Longrightarrow>
   addToQuestLog e w =
     (saveState (w\<lparr>app := (app w)\<lparr>questLog := JArray (take 10 (e # entries))\<rparr>\<rparr>), None)"
  by (simp add: addToQuestLog_def Let_def)

lemma addToQuestLog_currentXP:
  "currentXP (app (fst (addToQuestLog e w))) = currentXP (app w)"
  by (simp add: addToQuestLog_def Let_def saveState_def split: js_value.splits)

lemma handleSwapSuccess_currentXP:
  "currentXP (app (fst (handleSwapSuccess now result fd w)))
     = js_add (currentXP (app w)) (xpEarnedOf result)"
proof -
  have "currentXP (app (fst (handleSwapSuccess now result fd w)))
      = currentXP (app (fst (addToQuestLog (questLogEntry now result fd)
                                (addXP (xpEarnedOf result) w))))"
    by (simp add: handleSwapSuccess_def Let_def showSuccessModal_def
        split: prod.splits option.splits)
  then show ?thesis by (simp add: addToQuestLog_currentXP addXP_currentXP)
qed

lemma handleSwapSuccess_array:
  assumes "questLog (app w) = JArray entries"
  shows "handleSwapSuccess now result fd w =
     (showSuccessModal (orElse (message result) ''Treasure found!'') (xpEarnedOf result)
        (saveState ((addXP (xpEarnedOf result) w)
           \<lparr>app := (app (addXP (xpEarnedOf result) w))
               \<lparr>questLog := JArray (take 10 (questLogEntry now result fd # entries))\<rparr>\<rparr>)),
      None)"
proof -
  have "questLog (app (addXP (xpEarnedOf result) w)) = JArray entries"
    using assms by (simp add: addXP_unchanged)
  then show ?thesis
    by (simp add: handleSwapSuccess_def Let_def addToQuestLog_array)
qed

lemma after_fetch_success_currentXP:
  assumes "success result"
  shows "currentXP (app (executeSwap_after_fetch now fd (Response result) w))
     = js_add (currentXP (app w)) (xpEarnedOf result)"
proof (cases "handleSwapSuccess now result fd w")
  case (Pair w' ex)
  have "currentXP (app w') = js_add (currentXP (app w)) (xpEarnedOf result)"
    using handleSwapSuccess_currentXP [of now result fd w] Pair by simp
  then show ?thesis
    using assms Pair
    by (cases ex) (simp_all add: executeSwap_after_fetch_def swapCatch_fields)
qed

lemma after_fetch_success_array:
  assumes "success result" and "questLog (app w) = JArray entries"
  shows "questLog (app (executeSwap_after_fetch now fd (Response result) w))
           = JArray (take 10 (questLogEntry now result fd # entries))"
    and "successModals (executeSwap_after_fetch now fd (Response result) w)
           = successModals w @ [(orElse (message result) ''Treasure found!'', xpEarnedOf result)]"
    and "executeRequests (executeSwap_after_fetch now fd (Response result) w) = executeRequests w"
  using assms
  by (simp_all add: executeSwap_after_fetch_def handleSwapSuccess_array showSuccessModal_def
      saveState_def addXP_unchanged)







section \<open>Swap submission: the validation gate\<close>

lemma submission_split:
  "handleSwapSubmission toWei now r fd w =
     (if snd (handleSwapSubmission_until_fetch toWei fd w)
      then executeSwap_after_fetch now fd r (fst (handleSwapSubmission_until_fetch toWei fd w))
      else fst (handleSwapSubmission_until_fetch toWei fd w))"
  by (simp add: handleSwapSubmission_def split: prod.splits)

text \<open>
  Claim C5, as amended. \<^verbatim>\<open>handleSwapSubmission\<close> makes three checks before anything
  is sent: the wallet is connected; the two tokens and the amount are not empty; the two
  token strings are not the same string. The strings are compared as they are
  (\<^verbatim>\<open>===\<close>), so one address written in two letter cases counts as two different tokens
  and is not rejected. A submission that fails one of the three checks ends with a
  notification of its own (three distinct texts), sends nothing to the execute service
  and leaves \<^verbatim>\<open>AppState\<close> unchanged; a request is sent only when all three have
  passed. Whether the tokens resolve in the registry is not checked.
\<close>

theorem handleSwapSubmission_validation:
  "(\<not> isConnected (app w) \<longrightarrow>
      handleSwapSubmission_until_fetch toWei fd w
        = (showNotification ConnectWalletFirst Warning w, False))
   \<and> (isConnected (app w) \<and> (fromToken fd = [] \<or> toToken fd = [] \<or> amount fd = []) \<longrightarrow>
      handleSwapSubmission_until_fetch toWei fd w
        = (showNotification FillAllFields Warning w, False))
   \<and> (isConnected (app w) \<and> fromToken fd \<noteq> [] \<and> toToken fd \<noteq> [] \<and> amount fd \<noteq> []
        \<and> fromToken fd = toToken fd \<longrightarrow>
      handleSwapSubmission_until_fetch toWei fd w
        = (showNotification SelectDifferentTokens Warning w, False))
   \<and> (\<not> isConnected (app w) \<or> fromToken fd = [] \<or> toToken fd = [] \<or> amount fd = []
        \<or> fromToken fd = toToken fd \<longrightarrow>
      executeRequests (handleSwapSubmission toWei now r fd w) = executeRequests w
      \<and> app (handleSwapSubmission toWei now r fd w) = app w
      \<and> (\<exists>reason. notifications (handleSwapSubmission toWei now r fd w)
            = notifications w @ [(reason, Warning)]))
   \<and> (executeRequests (fst (handleSwapSubmission_until_fetch toWei fd w)) \<noteq> executeRequests w
        \<longrightarrow> isConnected (app w) \<and> fromToken fd \<noteq> [] \<and> toToken fd \<noteq> [] \<and> amount fd \<noteq> []
            \<and> fromToken fd \<noteq> toToken fd)
   \<and> distinct [ConnectWalletFirst, FillAllFields, SelectDifferentTokens]"
proof -
  have c1: "\<not> isConnected (app w) \<longrightarrow>
      handleSwapSubmission_until_fetch toWei fd w
        = (showNotification ConnectWalletFirst Warning w, False)"
    by (simp add: handleSwapSubmission_until_fetch_def)
  have c2: "isConnected (app w) \<and> (fromToken fd = [] \<or> toToken fd = [] \<or> amount fd = []) \<longrightarrow>
      handleSwapSubmission_until_fetch toWei fd w
        = (showNotification FillAllFields Warning w, False)"
    by (simp add: handleSwapSubmission_until_fetch_def)
  have c3: "isConnected (app w) \<and> fromToken fd \<noteq> [] \<and> toToken fd \<noteq> [] \<and> amount fd \<noteq> []
        \<and> fromToken fd = toToken fd \<longrightarrow>
      handleSwapSubmission_until_fetch toWei fd w
        = (showNotification SelectDifferentTokens Warning w, False)"
    by (simp add: handleSwapSubmission_until_fetch_def)
  have c4: "\<not> isConnected (app w) \<or> fromToken fd = [] \<or> toToken fd = [] \<or> amount fd = []
        \<or> fromToken fd = toToken fd \<longrightarrow>
      executeRequests (handleSwapSubmission toWei now r fd w) = executeRequests w
      \<and> app (handleSwapSubmission toWei now r fd w) = app w
      \<and> (\<exists>reason. notifications (handleSwapSubmission toWei now r fd w)
            = notifications w @ [(reason, Warning)])"
    by (auto simp: submission_split handleSwapSubmission_until_fetch_def showNotification_def)
  have c5: "executeRequests (fst (handleSwapSubmission_until_fetch toWei fd w))
          \<noteq> executeRequests w
        \<longrightarrow> isConnected (app w) \<and> fromToken fd \<noteq> [] \<and> toToken fd \<noteq> [] \<and> amount fd \<noteq> []
            \<and> fromToken fd \<noteq> toToken fd"
    by (auto simp: handleSwapSubmission_until_fetch_def showNotification_def)
  have c6: "distinct [ConnectWalletFirst, FillAllFields, SelectDifferentTokens]"
    by simp
  from c1 c2 c3 c4 c5 c6 show ?thesis by blast
qed

text \<open>
  The theorem at the example of the specification: the same token on both sides and the
  amount \<^verbatim>\<open>"5"\<close>, on the connected sample page. The submission ends with the
  different-tokens notification and no request.
\<close>

theorem handleSwapSubmission_validation_witness:
  "handleSwapSubmission_until_fetch sampleToWei
      (sampleForm\<lparr>toToken := fromToken sampleForm, amount := ''5''\<rparr>) connectedPage
     = (showNotification SelectDifferentTokens Warning connectedPage, False)
   \<and> executeRequests (handleSwapSubmission sampleToWei ''t1'' (Response (okResponse None))
      (sampleForm\<lparr>toToken := fromToken sampleForm, amount := ''5''\<rparr>) connectedPage)
     = executeRequests connectedPage
   \<and> app (handleSwapSubmission sampleToWei ''t1'' (Response (okResponse None))
      (sampleForm\<lparr>toToken := fromToken sampleForm, amount := ''5''\<rparr>) connectedPage)
     = app connectedPage
   \<and> handleSwapSubmission_until_fetch sampleToWei sampleForm page_init
     = (showNotification ConnectWalletFirst Warning page_init, False)
   \<and> handleSwapSubmission_until_fetch sampleToWei (sampleForm\<lparr>amount := []\<rparr>) connectedPage
     = (showNotification FillAllFields Warning connectedPage, False)"
proof -
  have h: "isConnected (app connectedPage)
      \<and> fromToken (sampleForm\<lparr>toToken := fromToken sampleForm, amount := ''5''\<rparr>) \<noteq> []
      \<and> toToken (sampleForm\<lparr>toToken := fromToken sampleForm, amount := ''5''\<rparr>) \<noteq> []
      \<and> amount (sampleForm\<lparr>toToken := fromToken sampleForm, amount := ''5''\<rparr>) \<noteq> []
      \<and> fromToken (sampleForm\<lparr>toToken := fromToken sampleForm, amount := ''5''\<rparr>)
          = toToken (sampleForm\<lparr>toToken := fromToken sampleForm, amount := ''5''\<rparr>)"
    by (simp add: connectedPage_def page_init_def AppState_init_def sampleForm_def)
  have n: "\<not> isConnected (app page_init)"
    by (simp add: page_init_def AppState_init_def)
  have e: "amount (sampleForm\<lparr>amount := []\<rparr>) = []"
    by simp
  from h handleSwapSubmission_validation
      [of connectedPage sampleToWei
          "sampleForm\<lparr>toToken := fromToken sampleForm, amount := ''5''\<rparr>"
          "''t1''" "Response (okResponse None)"]
  have same: "handleSwapSubmission_until_fetch sampleToWei
      (sampleForm\<lparr>toToken := fromToken sampleForm, amount := ''5''\<rparr>) connectedPage
     = (showNotification SelectDifferentTokens Warning connectedPage, False)
   \<and> executeRequests (handleSwapSubmission sampleToWei ''t1'' (Response (okResponse None))
      (sampleForm\<lparr>toToken := fromToken sampleForm, amount := ''5''\<rparr>) connectedPage)
     = executeRequests connectedPage
   \<and> app (handleSwapSubmission sampleToWei ''t1'' (Response (okResponse None))
      (sampleForm\<lparr>toToken := fromToken sampleForm, amount := ''5''\<rparr>) connectedPage)
     = app connectedPage"
    by blast
  from n handleSwapSubmission_validation [of page_init sampleToWei sampleForm]
  have off: "handleSwapSubmission_until_fetch sampleToWei sampleForm page_init
     = (showNotification ConnectWalletFirst Warning page_init, False)"
    by blast
  from h e handleSwapSubmission_validation
      [of connectedPage sampleToWei "sampleForm\<lparr>amount := []\<rparr>"]
  have blank: "handleSwapSubmission_until_fetch sampleToWei (sampleForm\<lparr>amount := []\<rparr>)
      connectedPage = (showNotification FillAllFields Warning connectedPage, False)"
    by blast
  from same off blank show ?thesis by blast
qed

text \<open>
  Claim C5 as stated fails: with two token addresses that the registry does not know,
  the submission passes the checks and the request is sent to the execute service; and
  with the address of one token of the registry written in lower case on one side and in
  upper case on the other, the submission passes the check for different tokens and the
  request is sent as well.
\<close>

theorem handleSwapSubmission_validation_counterexample:
  "getTokenSymbolByAddress ''0x1111'' = None
   \<and> getTokenSymbolByAddress ''0x2222'' = None
   \<and> handleSwapSubmission_until_fetch sampleToWei
        \<lparr>fromToken = ''0x1111'', toToken = ''0x2222'', amount = ''1'', slippage = ''0.5''\<rparr>
        connectedPage
      = (connectedPage\<lparr>loadingShown := True,
           executeRequests :=
             [\<lparr>walletAddress = Some ''0xA1'', tokenIn = ''0x1111'', tokenOut = ''0x2222'',
               amountIn = ''1000000000000000000'', slippage_sent = ''0.5''\<rparr>]\<rparr>, True)
   \<and> getTokenSymbolByAddress ''0xae13d989dac2f0debff460ac112a837c89baa7cd'' = Some ''WBNB''
   \<and> getTokenSymbolByAddress ''0xAE13D989DAC2F0DEBFF460AC112A837C89BAA7CD'' = Some ''WBNB''
   \<and> handleSwapSubmission_until_fetch sampleToWei
        \<lparr>fromToken = ''0xae13d989dac2f0debff460ac112a837c89baa7cd'',
          toToken = ''0xAE13D989DAC2F0DEBFF460AC112A837C89BAA7CD'',
          amount = ''1'', slippage = ''0.5''\<rparr>
        connectedPage
      = (connectedPage\<lparr>loadingShown := True,
           executeRequests :=
             [\<lparr>walletAddress = Some ''0xA1'',
               tokenIn = ''0xae13d989dac2f0debff460ac112a837c89baa7cd'',
               tokenOut = ''0xAE13D989DAC2F0DEBFF460AC112A837C89BAA7CD'',
               amountIn = ''1000000000000000000'', slippage_sent = ''0.5''\<rparr>]\<rparr>, True)"
  by (simp add: getTokenSymbolByAddress_def TOKENS_def toLowerCase_def toLowerChar_def
      handleSwapSubmission_until_fetch_def executeSwap_until_fetch_def connectedPage_def
      page_init_def AppState_init_def sampleToWei_def)

section \<open>Wallet events\<close>

text \<open>
  Claim C8. In every state of the page and whatever the wallet answers, an
  accounts-changed event with an empty list leaves the session disconnected with no
  account; an accounts-changed event with a list that is not empty leaves it connected
  with the first account of the list; a chain-changed event leaves \<^verbatim>\<open>AppState\<close> as it
  is and displays whether the new chain is the required one.
\<close>

theorem handleAccountsChanged_transitions:
  "isConnected (app (handleAccountsChanged env [] w)) = False
   \<and> account (app (handleAccountsChanged env [] w)) = None
   \<and> isConnected (app (handleAccountsChanged env (a # rest) w)) = True
   \<and> account (app (handleAccountsChanged env (a # rest) w)) = Some a
   \<and> app (handleChainChanged c w) = app w
   \<and> networkStatus (handleChainChanged c w) = Some (c = CHAIN_ID)"
  by (simp add: handleAccountsChanged_def disconnectWallet_def connectWallet_def Let_def
      showNotification_def validateWalletWithBackend_def verifyNetwork_def
      switchToBSCTestnet_def updateNetworkStatus_def handleChainChanged_def
      split: sum.splits rpc_result.splits)

text \<open>
  The theorem on the connected sample page: a new list of accounts, the empty list, and a
  change to chain \<^verbatim>\<open>0x1\<close>.
\<close>

theorem handleAccountsChanged_transitions_witness:
  "account (app (handleAccountsChanged sampleWallet [''0xB2'', ''0xC3''] connectedPage))
     = Some ''0xB2''
   \<and> isConnected (app (handleAccountsChanged sampleWallet [] connectedPage)) = False
   \<and> networkStatus (handleChainChanged ''0x1'' connectedPage) = Some False
   \<and> isConnected (app (handleChainChanged ''0x1'' connectedPage)) = True"
  using handleAccountsChanged_transitions
      [of sampleWallet connectedPage "''0xB2''" "[''0xC3'']" "''0x1''"]
  by (simp add: CHAIN_ID_def connectedPage_def page_init_def)

section \<open>Swap execution: the success path\<close>

lemma xpEarnedOf_cases:
  "xp_earned result = Some n \<Longrightarrow> n \<noteq> 0 \<Longrightarrow> xpEarnedOf result = Num n"
  "xp_earned result = None \<or> xp_earned result = Some 0 \<Longrightarrow> xpEarnedOf result = Num 10"
  by (auto simp: xpEarnedOf_def)

text \<open>
  Claim C7, as amended. When the execute service answers with \<^verbatim>\<open>success\<close> true, the
  amount added to the XP total, recorded in the new quest-log entry and shown in the
  success modal is the \<^verbatim>\<open>xp_earned\<close> of the answer when the answer has one that is not
  0, and the base value 10 when the answer has none or has 0. (The entry and the modal
  need the quest log to be an array.)
\<close>

theorem swap_success_xp_award:
  assumes "success result"
  shows "currentXP (app (executeSwap_after_fetch now fd (Response result) w))
           = js_add (currentXP (app w)) (xpEarnedOf result)
    \<and> (questLog (app w) = JArray entries \<longrightarrow>
          questLog (app (executeSwap_after_fetch now fd (Response result) w))
            = JArray (take 10 (questLogEntry now result fd # entries))
          \<and> successModals (executeSwap_after_fetch now fd (Response result) w)
            = successModals w @ [(orElse (message result) ''Treasure found!'', xpEarnedOf result)])
    \<and> entry_xpEarned (questLogEntry now result fd) = xpEarnedOf result
    \<and> (xp_earned result = Some n \<and> n \<noteq> 0 \<longrightarrow> xpEarnedOf result = Num n)
    \<and> (xp_earned result = None \<or> xp_earned result = Some 0 \<longrightarrow> xpEarnedOf result = Num 10)"
proof -
  have c1: "currentXP (app (executeSwap_after_fetch now fd (Response result) w))
           = js_add (currentXP (app w)) (xpEarnedOf result)"
    using assms by (rule after_fetch_success_currentXP)
  have c2: "questLog (app w) = JArray entries \<longrightarrow>
          questLog (app (executeSwap_after_fetch now fd (Response result) w))
            = JArray (take 10 (questLogEntry now result fd # entries))
          \<and> successModals (executeSwap_after_fetch now fd (Response result) w)
            = successModals w @ [(orElse (message result) ''Treasure found!'', xpEarnedOf result)]"
    using assms after_fetch_success_array(1,2) by blast
  have c3: "entry_xpEarned (questLogEntry now result fd) = xpEarnedOf result"
    by (simp add: questLogEntry_def)
  have c4: "xp_earned result = Some n \<and> n \<noteq> 0 \<longrightarrow> xpEarnedOf result = Num n"
    by (simp add: xpEarnedOf_cases)
  have c5: "xp_earned result = None \<or> xp_earned result = Some 0 \<longrightarrow> xpEarnedOf result = Num 10"
    by (simp add: xpEarnedOf_cases)
  from c1 c2 c3 c4 c5 show ?thesis by blast
qed

text \<open>
  The theorem on the connected sample page, at an answer with \<^verbatim>\<open>xp_earned\<close> 25 and at
  an answer without the field.
\<close>

theorem swap_success_xp_award_witness:
  "currentXP (app (executeSwap_after_fetch ''t1'' sampleForm (Response (okResponse (Some 25)))
       connectedPage)) = Num 25
   \<and> questLog (app (executeSwap_after_fetch ''t1'' sampleForm (Response (okResponse (Some 25)))
       connectedPage)) = JArray [questLogEntry ''t1'' (okResponse (Some 25)) sampleForm]
   \<and> entry_xpEarned (questLogEntry ''t1'' (okResponse (Some 25)) sampleForm) = Num 25
   \<and> currentXP (app (executeSwap_after_fetch ''t1'' sampleForm (Response (okResponse None))
       connectedPage)) = Num 10"
proof -
  have s1: "success (okResponse (Some 25))" and s2: "success (okResponse None)"
    by (simp_all add: okResponse_def)
  have x1: "xp_earned (okResponse (Some 25)) = Some 25 \<and> (25::int) \<noteq> 0"
    and x2: "xp_earned (okResponse None) = None"
    by (simp_all add: okResponse_def)
  have z: "currentXP (app connectedPage) = Num 0" "questLog (app connectedPage) = JArray []"
    by (simp_all add: connectedPage_def page_init_def AppState_init_def)
  from swap_success_xp_award [OF s1, of "''t1''" sampleForm connectedPage "[]" 25] x1 z
  have a: "currentXP (app (executeSwap_after_fetch ''t1'' sampleForm
      (Response (okResponse (Some 25))) connectedPage)) = Num 25
   \<and> questLog (app (executeSwap_after_fetch ''t1'' sampleForm (Response (okResponse (Some 25)))
       connectedPage)) = JArray [questLogEntry ''t1'' (okResponse (Some 25)) sampleForm]
   \<and> entry_xpEarned (questLogEntry ''t1'' (okResponse (Some 25)) sampleForm) = Num 25"
    by simp
  from swap_success_xp_award [OF s2, of "''t1''" sampleForm connectedPage] x2 z
  have b: "currentXP (app (executeSwap_after_fetch ''t1'' sampleForm
      (Response (okResponse None)) connectedPage)) = Num 10"
    by simp
  from a b show ?thesis by simp
qed

text \<open>
  Claim C7 as stated fails: an answer that contains \<^verbatim>\<open>xp_earned: 0\<close> is awarded 10, in
  the XP total and in the quest-log entry.
\<close>

theorem swap_success_xp_award_counterexample:
  "xp_earned (okResponse (Some 0)) = Some 0
   \<and> currentXP (app connectedPage) = Num 0
   \<and> currentXP (app (executeSwap_after_fetch ''t1'' sampleForm (Response (okResponse (Some 0)))
       connectedPage)) = Num 10
   \<and> questLog (app (executeSwap_after_fetch ''t1'' sampleForm (Response (okResponse (Some 0)))
       connectedPage))
     = JArray [\<lparr>entry_type = ''swap'', entry_fromToken = Some ''WBNB'',
                entry_toToken = Some ''BUSD'', entry_amount = ''1'', entry_xpEarned = Num 10,
                entry_timestamp = ''t1'', entry_txHash = Some ''0xfeed''\<rparr>]"
  by (simp add: executeSwap_after_fetch_def handleSwapSuccess_def Let_def addToQuestLog_def
      addXP_def saveState_def showSuccessModal_def showLevelUpEffect_def showNotification_def
      xpEarnedOf_def questLogEntry_def okResponse_def connectedPage_def page_init_def
      AppState_init_def sampleForm_def getTokenSymbolByAddress_def TOKENS_def toLowerCase_def
      toLowerChar_def)

section \<open>Overlapping submissions\<close>









end
